theory Spec2Isabelle
  imports Main "HOL-Library.AList" "HOL-Library.Sublist"
begin

section \<open>Request values\<close>

text \<open>
  A request is a Python dict decoded from JSON. Its values are \<open>None\<close>, booleans,
  integers, strings, lists and dicts with string keys. A dict is an association list in
  insertion order; lookup takes the first entry of a key and an update keeps the key's
  position, as a Python dict does.
\<close>

datatype pyval =
    PNone
  | PBool bool
  | PInt int
  | PStr string
  | PList "pyval list"
  | PDict "(string \<times> pyval) list"

type_synonym pydict = "(string \<times> pyval) list"

text \<open>Python's truth value of an object, as \<open>not x\<close> and \<open>if x\<close> test it.\<close>

fun truthy :: "pyval \<Rightarrow> bool" where
  "truthy PNone = False"
| "truthy (PBool b) = b"
| "truthy (PInt i) = (i \<noteq> 0)"
| "truthy (PStr s) = (s \<noteq> [])"
| "truthy (PList xs) = (xs \<noteq> [])"
| "truthy (PDict d) = (d \<noteq> [])"

text \<open>
  The exceptions of the source. \<open>ParameterNotFoundException\<close> and \<open>ModelException\<close>
  are the two classes of \<open>vm_logging.exceptions\<close> that the controller raises, with their
  message; \<open>KeyError\<close>, \<open>TypeError\<close> and \<open>AttributeError\<close> are what Python raises
  on a missing key, on an operation the operand's type does not support, and on a
  missing method. \<open>Failure\<close> is any exception of a collaborator.
\<close>

datatype error =
    ParameterNotFoundException string
  | ModelException string
  | KeyError string
  | TypeError
  | AttributeError
  | NotFoundError
  | DuplicateIdError
  | InvalidTransitionError
  | Failure string

text \<open>\<open>d.get(k)\<close>: the value, or \<open>None\<close> when the key is absent.\<close>

definition dict_get :: "pydict \<Rightarrow> string \<Rightarrow> pyval" where
  "dict_get d k = (case map_of d k of None \<Rightarrow> PNone | Some v \<Rightarrow> v)"

text \<open>\<open>k in d\<close> and \<open>d[k]\<close> on a dict.\<close>

definition dict_contains :: "string \<Rightarrow> pydict \<Rightarrow> bool" where
  "dict_contains k d = (k \<in> fst ` set d)"

definition dict_getitem :: "pydict \<Rightarrow> string \<Rightarrow> error + pyval" where
  "dict_getitem d k = (case map_of d k of None \<Rightarrow> Inl (KeyError k) | Some v \<Rightarrow> Inr v)"

text \<open>
  \<open>k in v\<close> for a string \<open>k\<close> and any value \<open>v\<close>: key membership in a dict, element
  membership in a list, substring test in a string, and a \<open>TypeError\<close> on the values
  that are no containers.
\<close>

fun py_contains :: "string \<Rightarrow> pyval \<Rightarrow> error + bool" where
  "py_contains k (PDict d) = Inr (dict_contains k d)"
| "py_contains k (PList xs) = Inr (PStr k \<in> set xs)"
| "py_contains k (PStr s) = Inr (sublist k s)"
| "py_contains k PNone = Inl TypeError"
| "py_contains k (PBool b) = Inl TypeError"
| "py_contains k (PInt i) = Inl TypeError"

text \<open>
  \<open>v[k]\<close> and \<open>v[k] = x\<close> for a string \<open>k\<close>: only a dict takes a string subscript.
\<close>

fun py_getitem :: "pyval \<Rightarrow> string \<Rightarrow> error + pyval" where
  "py_getitem (PDict d) k = dict_getitem d k"
| "py_getitem PNone k = Inl TypeError"
| "py_getitem (PBool b) k = Inl TypeError"
| "py_getitem (PInt i) k = Inl TypeError"
| "py_getitem (PStr s) k = Inl TypeError"
| "py_getitem (PList xs) k = Inl TypeError"

fun py_setitem :: "pyval \<Rightarrow> string \<Rightarrow> pyval \<Rightarrow> error + pyval" where
  "py_setitem (PDict d) k x = Inr (PDict (AList.update k x d))"
| "py_setitem PNone k x = Inl TypeError"
| "py_setitem (PBool b) k x = Inl TypeError"
| "py_setitem (PInt i) k x = Inl TypeError"
| "py_setitem (PStr s) k x = Inl TypeError"
| "py_setitem (PList xs) k x = Inl TypeError"

section \<open>Computations with state and exceptions\<close>

text \<open>
  A call of the source either returns a value or raises, and may change the state of
  the service (the database, the model store, the job table) on the way. A computation
  takes the state and gives the outcome and the state after it.
\<close>

type_synonym ('a, 's) prog = "'s \<Rightarrow> (error + 'a) \<times> 's"

definition py_return :: "'a \<Rightarrow> ('a, 's) prog" where
  "py_return x s = (Inr x, s)"

definition py_raise :: "error \<Rightarrow> ('a, 's) prog" where
  "py_raise e s = (Inl e, s)"

text \<open>A pure expression that may raise: the state stays as it is.\<close>

definition py_eval :: "error + 'a \<Rightarrow> ('a, 's) prog" where
  "py_eval r s = (r, s)"

text \<open>Sequencing: an exception of the first computation skips the rest.\<close>

definition py_bind :: "('a, 's) prog \<Rightarrow> ('a \<Rightarrow> ('b, 's) prog) \<Rightarrow> ('b, 's) prog" where
  "py_bind m f s = (case m s of (Inl e, s') \<Rightarrow> (Inl e, s') | (Inr x, s') \<Rightarrow> f x s')"

text \<open>A request handler: \<open>def handler(parameters: dict[str, Any])\<close>.\<close>

type_synonym 's handler = "pydict \<Rightarrow> (pyval, 's) prog"

section \<open>The model controller\<close>

text \<open>
  The collaborators of \<open>vm_models/controller.py\<close>, which the controller imports:
  the model class (\<open>get_model_class()(id)\<close> constructs a model object), the methods of
  a model object, and the fitting filter class
  (\<open>get_fitting_filter_class()(input_filter).get_value_as_model_parameter()\<close>).
  Each may raise and may change the state.
\<close>

record ('m, 's) model_env =
  get_model_class :: "pyval \<Rightarrow> ('m, 's) prog"
  model_fit :: "'m \<Rightarrow> pyval \<Rightarrow> (pyval, 's) prog"
  model_predict :: "'m \<Rightarrow> pyval \<Rightarrow> (pyval, 's) prog"
  model_initialize :: "'m \<Rightarrow> pyval \<Rightarrow> (pyval, 's) prog"
  model_drop :: "'m \<Rightarrow> (pyval, 's) prog"
  model_get_info :: "'m \<Rightarrow> (pyval, 's) prog"
  model_drop_fitting :: "'m \<Rightarrow> (pyval, 's) prog"
  get_fitting_filter_class :: "pyval \<Rightarrow> (pyval, 's) prog"

text \<open>The decorator \<open>_check_input_parameters\<close>.\<close>

definition check_input_parameters :: "'s handler \<Rightarrow> 's handler" where
  "check_input_parameters func parameters =
     (if \<not> truthy (dict_get parameters ''model'')
      then py_raise (ParameterNotFoundException
             ''Parameter \"model\" is not found in request parameters'')
      else func parameters)"

text \<open>
  The decorator \<open>_transform_model_parameters_for_fitting\<close>. Its wrapper first
  rewrites the request, then calls the wrapped function on it:
  \<open>transformed_parameters\<close> is the part before \<open>result = func(parameters)\<close>. The
  source assigns into the nested dicts in place; here the changed fitting parameters
  are stored back under \<open>'fitting_parameters'\<close> and the changed model parameters
  under \<open>'model'\<close>, which is the same request dict as long as no two entries of the
  request share one object (true of a decoded JSON request).
\<close>

definition transformed_parameters :: "('m, 's) model_env \<Rightarrow> pydict \<Rightarrow> (pydict, 's) prog" where
  "transformed_parameters env parameters =
     py_bind (py_eval (dict_getitem parameters ''model'')) (\<lambda>model.
     py_bind (py_eval (py_contains ''fitting_parameters'' model)) (\<lambda>present.
     if \<not> present
     then py_raise (ParameterNotFoundException
            ''Parameter \"fitting_parameters\" not found in model parameters'')
     else
     py_bind (py_eval (py_getitem model ''fitting_parameters'')) (\<lambda>fitting_parameters.
     py_bind (py_eval (py_contains ''filter'' fitting_parameters)) (\<lambda>has_filter.
     py_bind
       (if has_filter
        then py_bind (py_eval (py_getitem fitting_parameters ''filter'')) (\<lambda>input_filter.
             py_bind (get_fitting_filter_class env input_filter) (\<lambda>filter_value.
             py_eval (py_setitem fitting_parameters ''filter'' filter_value)))
        else py_return fitting_parameters) (\<lambda>fitting_parameters1.
     py_bind
       (if dict_contains ''job_id'' parameters
        then py_bind (py_eval (dict_getitem parameters ''job_id'')) (\<lambda>job_id.
             py_eval (py_setitem fitting_parameters1 ''job_id'' job_id))
        else py_return fitting_parameters1) (\<lambda>fitting_parameters2.
     py_bind (py_eval (py_setitem model ''fitting_parameters'' fitting_parameters2)) (\<lambda>model1.
     py_return (AList.update ''model'' model1 parameters))))))))"

definition transform_model_parameters_for_fitting ::
    "('m, 's) model_env \<Rightarrow> 's handler \<Rightarrow> 's handler" where
  "transform_model_parameters_for_fitting env func parameters =
     py_bind (transformed_parameters env parameters) func"

text \<open>\<open>_get_model\<close>: the model object of the model parameters.\<close>

definition get_model :: "('m, 's) model_env \<Rightarrow> pyval \<Rightarrow> ('m, 's) prog" where
  "get_model env input_model =
     (case input_model of
        PDict d \<Rightarrow>
          if \<not> truthy (dict_get d ''id'')
          then py_raise (ModelException ''Parameter \"id\" is not found in model parameters'')
          else py_bind (py_eval (dict_getitem d ''id'')) (get_model_class env)
      | _ \<Rightarrow> py_raise AttributeError)"

text \<open>
  The body of \<open>fit\<close>, the function that the decorators wrap, and \<open>fit\<close> itself. The
  innermost decorator, \<open>execute_in_background\<close>, comes from \<open>vm_background_jobs\<close>;
  \<open>fit_with\<close> takes it as the parameter \<open>background\<close>.
\<close>

definition fit_body :: "('m, 's) model_env \<Rightarrow> 's handler" where
  "fit_body env parameters =
     py_bind (py_eval (dict_getitem parameters ''model'')) (\<lambda>input_model.
     py_bind (get_model env input_model) (\<lambda>model.
     py_bind (py_eval (py_contains ''fitting_parameters'' input_model)) (\<lambda>present.
     if \<not> present
     then py_raise (ModelException ''Can not find fitting parameters in model parameters'')
     else py_bind (py_eval (py_getitem input_model ''fitting_parameters''))
            (model_fit env model))))"

definition fit_with ::
    "('s handler \<Rightarrow> 's handler) \<Rightarrow> ('m, 's) model_env \<Rightarrow> 's handler" where
  "fit_with background env =
     check_input_parameters
       (transform_model_parameters_for_fitting env (background (fit_body env)))"

definition predict_body :: "('m, 's) model_env \<Rightarrow> 's handler" where
  "predict_body env parameters =
     (if \<not> dict_contains ''inputs'' parameters
      then py_raise (ParameterNotFoundException
             ''Parameter \"inputs\" is not in request parameters'')
      else
        py_bind (py_eval (dict_getitem parameters ''model'')) (\<lambda>input_model.
        py_bind (get_model env input_model) (\<lambda>model.
        py_bind (py_eval (dict_getitem parameters ''inputs'')) (model_predict env model))))"

definition predict :: "('m, 's) model_env \<Rightarrow> 's handler" where
  "predict env = check_input_parameters (predict_body env)"

definition initialize_body :: "('m, 's) model_env \<Rightarrow> 's handler" where
  "initialize_body env parameters =
     (if \<not> truthy (dict_get parameters ''model'')
      then py_raise (ParameterNotFoundException
             ''Parameter \"model\" is not found in request parameters'')
      else if \<not> truthy (dict_get parameters ''db'')
      then py_raise (ParameterNotFoundException
             ''Parameter \"db\" is not found in request parameters'')
      else
        py_bind (py_eval (dict_getitem parameters ''model'')) (\<lambda>input_model.
        py_bind (get_model env input_model) (\<lambda>model.
        py_bind (py_eval (dict_getitem parameters ''model'')) (model_initialize env model))))"

definition initialize :: "('m, 's) model_env \<Rightarrow> 's handler" where
  "initialize env = check_input_parameters (initialize_body env)"

definition drop_body :: "('m, 's) model_env \<Rightarrow> 's handler" where
  "drop_body env parameters =
     (if \<not> truthy (dict_get parameters ''model'')
      then py_raise (ParameterNotFoundException
             ''Parameter \"model\" is not found in request parameters'')
      else if \<not> truthy (dict_get parameters ''db'')
      then py_raise (ParameterNotFoundException
             ''Parameter \"db\" is not found in request parameters'')
      else
        py_bind (py_eval (dict_getitem parameters ''model'')) (\<lambda>input_model.
        py_bind (get_model env input_model) (model_drop env)))"

definition drop_model :: "('m, 's) model_env \<Rightarrow> 's handler" where
  "drop_model env = check_input_parameters (drop_body env)"

definition get_info_body :: "('m, 's) model_env \<Rightarrow> 's handler" where
  "get_info_body env parameters =
     py_bind (py_eval (dict_getitem parameters ''model'')) (\<lambda>input_model.
     py_bind (get_model env input_model) (model_get_info env))"

definition get_info :: "('m, 's) model_env \<Rightarrow> 's handler" where
  "get_info env = check_input_parameters (get_info_body env)"



subsection \<open>A recording environment for concrete runs\<close>

text \<open>
  A test double of the collaborators: the state is the list of the calls made so far.
  The model class returns the id as the model object, every method returns \<open>None\<close>,
  the filter class returns the filter as it is. \<open>echo\<close> is a handler that returns the
  parameters it was called with.
\<close>

datatype call = Constructed pyval | Called string pyval | Converted pyval

definition recording_env :: "(pyval, call list) model_env" where
  "recording_env =
     \<lparr> get_model_class = (\<lambda>i s. (Inr i, s @ [Constructed i])),
       model_fit = (\<lambda>m x s. (Inr PNone, s @ [Called ''fit'' x])),
       model_predict = (\<lambda>m x s. (Inr PNone, s @ [Called ''predict'' x])),
       model_initialize = (\<lambda>m x s. (Inr PNone, s @ [Called ''initialize'' x])),
       model_drop = (\<lambda>m s. (Inr PNone, s @ [Called ''drop'' PNone])),
       model_get_info = (\<lambda>m s. (Inr PNone, s @ [Called ''get_info'' PNone])),
       model_drop_fitting = (\<lambda>m s. (Inr PNone, s @ [Called ''drop_fitting'' PNone])),
       get_fitting_filter_class = (\<lambda>f s. (Inr f, s @ [Converted f])) \<rparr>"


section \<open>The general actions\<close>

text \<open>
  \<open>actions.py\<close> imports \<open>get_version\<close> from \<open>vm_versions\<close> and \<open>test\<close>, \<open>ping\<close>
  from \<open>general\<close>. \<open>get_version()\<close> takes no argument.
\<close>

record 's general_env =
  vm_versions_get_version :: "(pyval, 's) prog"
  general_test :: "'s handler"
  general_ping :: "'s handler"

definition get_version :: "'s general_env \<Rightarrow> 's handler" where
  "get_version env parameters = vm_versions_get_version env"

definition test :: "'s general_env \<Rightarrow> 's handler" where
  "test env parameters = general_test env parameters"

definition ping :: "'s general_env \<Rightarrow> 's handler" where
  "ping env parameters = general_ping env parameters"

definition get_actions :: "'s general_env \<Rightarrow> (string \<times> 's handler) list" where
  "get_actions env =
     [(''test'', test env), (''get_version'', get_version env), (''ping'', ping env)]"

section \<open>The actions of the background jobs package\<close>

text \<open>
  \<open>vm_background_jobs/actions.py\<close> imports the package's \<open>controller\<close> and calls its
  \<open>get_jobs_info\<close> and \<open>delete_background_job\<close>.
\<close>

record 's jobs_controller =
  controller_get_jobs_info :: "'s handler"
  controller_delete_background_job :: "'s handler"

definition get_jobs_info :: "'s jobs_controller \<Rightarrow> 's handler" where
  "get_jobs_info controller parameters = controller_get_jobs_info controller parameters"

definition delete_background_job :: "'s jobs_controller \<Rightarrow> 's handler" where
  "delete_background_job controller parameters =
     py_bind (controller_delete_background_job controller parameters) (\<lambda>result.
     py_return result)"

definition jobs_get_actions :: "'s jobs_controller \<Rightarrow> (string \<times> 's handler) list" where
  "jobs_get_actions controller =
     [(''jobs_get_info'', get_jobs_info controller),
      (''jobs_delete'', delete_background_job controller)]"

section \<open>The background job subsystem\<close>

text \<open>
  \<open>vm_background_jobs/decorators.py\<close> and \<open>vm_background_jobs/controller.py\<close> are
  not among the sources. The definitions of this section follow the specification of the
  subsystem (the Job Record, the Job Registry, the Job Launcher, the Execution Wrapper and
  the Query/Delete facade).
\<close>

text \<open>Modelled from the spec: the status of a Job Record (section 3); the source of
  the job records is missing.\<close>

datatype job_status = Pending | Running | Completed | Failed

text \<open>Modelled from the spec: the Job Record (section 3), with its fields in the
  spec's order; the class of the job records is missing.\<close>

record job_record =
  job_id :: pyval
  status :: job_status
  start_date :: "nat option"
  end_date :: "nat option"
  worker_id :: "pyval option"
  error_info :: "string option"
  payload_reference :: pydict

text \<open>Modelled from the spec: the state of the service, which holds the Job Registry
  (the single shared mutable resource of section 5) beside the state of the other
  collaborators; the job table is missing.\<close>

record 'x world =
  registry :: "job_record list"
  service :: 'x

text \<open>Modelled from the spec: the forward order of the statuses (section 3:
  monotonic forward transitions only, no transition out of a terminal state); the
  transition check is missing.\<close>

fun status_rank :: "job_status \<Rightarrow> nat" where
  "status_rank Pending = 0"
| "status_rank Running = 1"
| "status_rank Completed = 2"
| "status_rank Failed = 2"


text \<open>Modelled from the spec: the change that \<open>update_status\<close> makes to one record
  (section 4.1): the new status, and each timestamp, worker id and error info that the
  caller gives. The registry is missing.\<close>

definition updated_record ::
    "job_status \<Rightarrow> nat option \<Rightarrow> nat option \<Rightarrow> pyval option \<Rightarrow> string option \<Rightarrow>
     job_record \<Rightarrow> job_record" where
  "updated_record new_status started ended worker failure r =
     r \<lparr> status := new_status,
         start_date := (case started of None \<Rightarrow> start_date r | Some t \<Rightarrow> Some t),
         end_date := (case ended of None \<Rightarrow> end_date r | Some t \<Rightarrow> Some t),
         worker_id := (case worker of None \<Rightarrow> worker_id r | Some i \<Rightarrow> Some i),
         error_info := (case failure of None \<Rightarrow> error_info r | Some d \<Rightarrow> Some d) \<rparr>"

text \<open>Modelled from the spec: \<open>Job Registry.update_status\<close> (section 4.1), which
  fails with \<open>NotFoundError\<close> on an unknown id and with \<open>InvalidTransitionError\<close> when
  the new status is not forward of the record's. The registry is missing.\<close>

definition registry_update_status ::
    "pyval \<Rightarrow> job_status \<Rightarrow> nat option \<Rightarrow> nat option \<Rightarrow> pyval option \<Rightarrow> string option \<Rightarrow>
     job_record list \<Rightarrow> error + job_record list" where
  "registry_update_status jid new_status started ended worker failure reg =
     (case find (\<lambda>r. job_id r = jid) reg of
        None \<Rightarrow> Inl NotFoundError
      | Some r \<Rightarrow>
          if \<not> status_rank (status r) < status_rank new_status
          then Inl InvalidTransitionError
          else Inr (map (\<lambda>r. if job_id r = jid
                              then updated_record new_status started ended worker failure r
                              else r) reg))"







text \<open>Modelled from the spec: what the Job Launcher and the Execution Wrapper take from
  their surroundings: the generator of job ids (section 4.2, step 1), the clock, the
  identifier of the worker, the description of a failure (step 6), and the test for the
  background-execution indicator of a request (section 4.3). The launcher and the
  decorator are missing.\<close>

record 'x job_env =
  generate_id :: "'x world \<Rightarrow> pyval"
  now :: "'x world \<Rightarrow> nat"
  this_worker :: pyval
  describe :: "error \<Rightarrow> string"
  background_indicator :: "pydict \<Rightarrow> bool"


text \<open>Modelled from the spec: the start of the worker of a launched job (section
  4.2, step 4): set the status running with the start date and the worker id. The
  launcher is missing.\<close>

definition worker_start :: "'x job_env \<Rightarrow> pyval \<Rightarrow> 'x world \<Rightarrow> error + 'x world" where
  "worker_start jenv jid w =
     (case registry_update_status jid Running (Some (now jenv w)) None
             (Some (this_worker jenv)) None (registry w) of
        Inl e \<Rightarrow> Inl e
      | Inr reg \<Rightarrow> Inr (w \<lparr> registry := reg \<rparr>))"

text \<open>Modelled from the spec: the end of the worker (section 4.2, steps 5 and 6): on
  a normal return set the status completed with the end date, on a failure set the
  status failed with the end date and the description of the failure. The failure is
  not raised again: the worker gives no result to any caller. Where the update of the
  record fails the worker leaves the registry as it is. The launcher is missing.\<close>

definition worker_finish ::
    "'x job_env \<Rightarrow> pyval \<Rightarrow> error + pyval \<Rightarrow> 'x world \<Rightarrow> 'x world" where
  "worker_finish jenv jid outcome w =
     (case outcome of
        Inr result \<Rightarrow>
          (case registry_update_status jid Completed None (Some (now jenv w))
                  None None (registry w) of
             Inl e \<Rightarrow> w
           | Inr reg \<Rightarrow> w \<lparr> registry := reg \<rparr>)
      | Inl failure \<Rightarrow>
          (case registry_update_status jid Failed None (Some (now jenv w))
                  None (Some (describe jenv failure)) (registry w) of
             Inl e \<Rightarrow> w
           | Inr reg \<Rightarrow> w \<lparr> registry := reg \<rparr>))"

text \<open>Modelled from the spec: the worker of a launched job (section 4.2, steps 4 to
  6), which runs after \<open>launch\<close> has returned: start, invoke the callable on the
  parameters, finish with its outcome. A worker that cannot start leaves the state as it
  is. The launcher is missing.\<close>

definition worker ::
    "'x job_env \<Rightarrow> 'x world handler \<Rightarrow> pydict \<Rightarrow> pyval \<Rightarrow> 'x world \<Rightarrow> 'x world" where
  "worker jenv func parameters jid w =
     (case worker_start jenv jid w of
        Inl e \<Rightarrow> w
      | Inr w1 \<Rightarrow>
          (case func parameters w1 of
             (outcome, w2) \<Rightarrow> worker_finish jenv jid outcome w2))"



subsection \<open>A sample launcher environment for concrete runs\<close>



section \<open>Laws of the computations\<close>

lemma py_bind_eval_Inr [simp]: "py_bind (py_eval (Inr x)) f = f x"
  by (rule ext) (simp add: py_bind_def py_eval_def)

lemma py_bind_eval_Inl [simp]: "py_bind (py_eval (Inl e)) f = py_raise e"
  by (rule ext) (simp add: py_bind_def py_eval_def py_raise_def)

lemma py_bind_raise [simp]: "py_bind (py_raise e) f = py_raise e"
  by (rule ext) (simp add: py_bind_def py_raise_def)

lemma py_bind_return [simp]: "py_bind (py_return x) f = f x"
  by (rule ext) (simp add: py_bind_def py_return_def)

lemma py_bind_return_right [simp]: "py_bind m py_return = m"
  by (rule ext) (simp add: py_bind_def py_return_def split: prod.splits sum.splits)



section \<open>Laws of the dicts\<close>


lemma truthy_get_getitem:
  "truthy (dict_get d k) \<Longrightarrow> dict_getitem d k = Inr (dict_get d k)"
  by (cases "map_of d k") (simp_all add: dict_get_def dict_getitem_def)



lemma dict_getitem_update_same [simp]: "dict_getitem (AList.update k v d) k = Inr v"
  by (simp add: dict_getitem_def update_conv')

lemma dict_getitem_update_other [simp]:
  "k' \<noteq> k \<Longrightarrow> dict_getitem (AList.update k v d) k' = dict_getitem d k'"
  by (simp add: dict_getitem_def update_conv')

lemma dict_get_update_other [simp]:
  "k' \<noteq> k \<Longrightarrow> dict_get (AList.update k v d) k' = dict_get d k'"
  by (simp add: dict_get_def update_conv')



section \<open>The transformation of the fitting parameters\<close>




section \<open>The model controller: validation and job id\<close>







text \<open>
  Claim C2. When \<open>parameters.get('model')\<close> is absent or falsy, each of \<open>fit\<close>,
  \<open>predict\<close>, \<open>initialize\<close>, \<open>drop\<close> and \<open>get_info\<close> raises
  \<open>ParameterNotFoundException\<close> and leaves the state as it is, for every collaborator
  and every background wrapper; the decorator gives this outcome for every function it
  wraps, so the function is not called.
\<close>

theorem absent_model_rejected:
  assumes "\<not> truthy (dict_get parameters ''model'')"
  shows "check_input_parameters func parameters s =
           (Inl (ParameterNotFoundException
              ''Parameter \"model\" is not found in request parameters''), s)
       \<and> fit_with background env parameters s =
           (Inl (ParameterNotFoundException
              ''Parameter \"model\" is not found in request parameters''), s)
       \<and> predict env parameters s =
           (Inl (ParameterNotFoundException
              ''Parameter \"model\" is not found in request parameters''), s)
       \<and> initialize env parameters s =
           (Inl (ParameterNotFoundException
              ''Parameter \"model\" is not found in request parameters''), s)
       \<and> drop_model env parameters s =
           (Inl (ParameterNotFoundException
              ''Parameter \"model\" is not found in request parameters''), s)
       \<and> get_info env parameters s =
           (Inl (ParameterNotFoundException
              ''Parameter \"model\" is not found in request parameters''), s)"
  using assms
  by (simp add: fit_with_def predict_def initialize_def drop_model_def get_info_def
      check_input_parameters_def py_raise_def)

theorem absent_model_rejected_witness:
  "\<not> truthy (dict_get [(''db'', PStr ''d'')] ''model'')
   \<and> \<not> truthy (dict_get [(''model'', PDict [])] ''model'')
   \<and> fit_with (\<lambda>func. func) recording_env [(''db'', PStr ''d'')] [] =
         (Inl (ParameterNotFoundException
            ''Parameter \"model\" is not found in request parameters''), [])
   \<and> get_info recording_env [(''model'', PDict [])] [] =
         (Inl (ParameterNotFoundException
            ''Parameter \"model\" is not found in request parameters''), [])"
proof -
  have h1: "\<not> truthy (dict_get [(''db'', PStr ''d'')] ''model'')"
    by (simp add: dict_get_def)
  have h2: "\<not> truthy (dict_get [(''model'', PDict [])] ''model'')"
    by (simp add: dict_get_def)
  show ?thesis
    using h1 h2
    by (simp add: absent_model_rejected [OF h1] absent_model_rejected [OF h2])
qed

text \<open>
  Claim C9. When the request has a truthy \<open>'model'\<close> and lacks the key \<open>'inputs'\<close>,
  \<open>predict\<close> raises \<open>ParameterNotFoundException\<close> and leaves the state as it is, for
  every collaborator: neither the model class nor a model object is called.
\<close>

theorem predict_requires_inputs:
  assumes "truthy (dict_get parameters ''model'')"
    and "\<not> dict_contains ''inputs'' parameters"
  shows "predict env parameters s =
           (Inl (ParameterNotFoundException
              ''Parameter \"inputs\" is not in request parameters''), s)"
  using assms
  by (simp add: predict_def check_input_parameters_def predict_body_def py_raise_def)

theorem predict_requires_inputs_witness:
  "truthy (dict_get [(''model'', PDict [(''id'', PStr ''m1'')])] ''model'')
   \<and> \<not> dict_contains ''inputs'' [(''model'', PDict [(''id'', PStr ''m1'')])]
   \<and> predict recording_env [(''model'', PDict [(''id'', PStr ''m1'')])] [] =
         (Inl (ParameterNotFoundException
            ''Parameter \"inputs\" is not in request parameters''), [])"
proof -
  have h1: "truthy (dict_get [(''model'', PDict [(''id'', PStr ''m1'')])] ''model'')"
    by (simp add: dict_get_def)
  have h2: "\<not> dict_contains ''inputs'' [(''model'', PDict [(''id'', PStr ''m1'')])]"
    by (simp add: dict_contains_def)
  show ?thesis
    using h1 h2 predict_requires_inputs [OF h1 h2, of recording_env "[]"] by simp
qed





section \<open>The action tables\<close>

text \<open>
  Claim C3. The action registered under \<open>'jobs_get_info'\<close> gives, for every request
  and every state, the outcome of the controller's \<open>get_jobs_info\<close> on that request,
  whatever the controller is.
\<close>

theorem jobs_get_info_delegates:
  "\<exists>action. map_of (jobs_get_actions controller) ''jobs_get_info'' = Some action
     \<and> (\<forall>parameters s.
           action parameters s = controller_get_jobs_info controller parameters s)"
  by (simp add: jobs_get_actions_def get_jobs_info_def)

text \<open>
  Claim C8. The action registered under \<open>'get_version'\<close> gives the same outcome for any
  two requests: it is \<open>get_version()\<close> of \<open>vm_versions\<close>, which takes no argument.
\<close>

theorem get_version_ignores_parameters:
  "\<exists>action. map_of (get_actions env) ''get_version'' = Some action
     \<and> (\<forall>p1 p2 s. action p1 s = action p2 s)
     \<and> (\<forall>p s. action p s = vm_versions_get_version env s)"
  by (simp add: get_actions_def get_version_def)






section \<open>The job registry, the launcher and the execution wrapper\<close>











end
